theory Spec2Isabelle
  imports Complex_Main "HOL-Library.AList" "HOL-Library.Sublist"
begin

section \<open>Data model (app/schema.py, app/database.py)\<close>

text \<open>
  Dates are day numbers (\<open>date.toordinal()\<close>) and datetimes are microsecond counts on the
  same axis, so that \<open>datetime.date()\<close> is integer division by the length of a day.
  A \<open>float\<close> amount is a rational: every fine the code computes is a multiple of one half.
  The calendar range of Python's \<open>date\<close> is not part of the model.
\<close>

type_synonym date = int
type_synonym datetime = int

definition date_of :: "datetime \<Rightarrow> date" where
  "date_of dt = dt div 86400000000"

datatype UserRole = ADMIN | LIBRARIAN | MEMBER

datatype BookStatus = AVAILABLE | BORROWED | RESERVED | MAINTENANCE | LOST

datatype Genre = FICTION | NON_FICTION | MYSTERY | ROMANCE | SCIENCE_FICTION | FANTASY
  | BIOGRAPHY | HISTORY | SCIENCE | TECHNOLOGY | CHILDREN | YOUNG_ADULT

text \<open>Table rows. The primary key \<open>id\<close> of a row is its key in the table.\<close>

record User =
  name :: string
  email :: string
  role :: UserRole
  is_active :: bool
  hashed_password :: string
  u_created_at :: datetime
  u_updated_at :: datetime

record Book =
  title :: string
  pages :: int
  language :: "string option"
  description :: "string option"
  genre :: "Genre option"
  status :: BookStatus
  b_created_at :: datetime
  b_updated_at :: datetime

record BorrowRecord =
  user_id :: int
  book_id :: int
  borrowed_date :: datetime
  due_date :: date
  returned_date :: "datetime option"
  fine_amount :: "rat option"
  r_notes :: "string option"

text \<open>\<open>BorrowRecordCreateSchema\<close>: the fields of \<open>BorrowRecordSchema\<close> plus the two references.\<close>

record BorrowRecordCreateSchema =
  p_borrowed_date :: datetime
  p_due_date :: date
  p_returned_date :: "datetime option"
  p_fine_amount :: "rat option"
  p_notes :: "string option"
  p_user_id :: int
  p_book_id :: int


text \<open>The storage behind one \<open>Session\<close>.\<close>

record db =
  users :: "int \<rightharpoonup> User"
  books :: "int \<rightharpoonup> Book"
  borrow_records :: "(int \<times> BorrowRecord) list"

text \<open>\<open>datetime.utcnow()\<close> and \<open>date.today()\<close> as seen by one request.\<close>

record clock =
  utcnow :: datetime
  today :: date

section \<open>Errors\<close>

text \<open>
  The \<open>detail\<close> of an \<open>HTTPException\<close>, one constructor per message of the source:
  \<^item> \<open>UserNotFound\<close>: "User not found"
  \<^item> \<open>UserNotActive\<close>: "User is not active"
  \<^item> \<open>BookNotFound\<close>: "Book not found"
  \<^item> \<open>BookNotAvailable s\<close>: "Book is not available. Current status: s"
  \<^item> \<open>BorrowLimitReached n\<close>: "User has reached maximum active borrows limit (n)"
  \<^item> \<open>UserHasOverdue\<close>: "User has overdue books. Cannot borrow new books until returned."
  \<^item> \<open>BorrowNotFound\<close>: "Borrow record not found"
  \<^item> \<open>AlreadyReturned\<close>: "Book already returned"
  \<^item> \<open>CannotExtendReturned\<close>: "Cannot extend returned book"
  \<^item> \<open>UserHasActiveBorrows\<close>: "Cannot delete user with active borrow records"
\<close>

datatype detail = UserNotFound | UserNotActive | BookNotFound | BookNotAvailable BookStatus
  | BorrowLimitReached nat | UserHasOverdue | BorrowNotFound | AlreadyReturned
  | CannotExtendReturned | UserHasActiveBorrows

text \<open>
  What a request can raise: an \<open>HTTPException\<close> with its status code, the 422 of a payload or
  query parameter that fails validation, and the uncaught Python exceptions, which the
  framework reports as status 500.
\<close>

datatype error = HTTPException nat detail
  | RequestValidationError
  | AttributeError
  | NameError string
  | IntegrityError

definition status_code :: "error \<Rightarrow> nat" where
  "status_code e = (case e of HTTPException c _ \<Rightarrow> c | RequestValidationError \<Rightarrow> 422 | _ \<Rightarrow> 500)"

text \<open>
  An endpoint returns the storage after the request and its outcome. An exception leaves
  the handler before \<open>session.commit()\<close>, so the storage is the one it started from.
\<close>

type_synonym 'a outcome = "db \<times> (error + 'a)"

definition raise :: "db \<Rightarrow> error \<Rightarrow> 'a outcome" where
  "raise d e = (d, Inl e)"

section \<open>Queries\<close>

definition session_get_borrow :: "db \<Rightarrow> int \<Rightarrow> BorrowRecord option" where
  "session_get_borrow d i = map_of (borrow_records d) i"

text \<open>The key the storage gives to an inserted row: one more than the largest key in use.\<close>

definition next_id :: "(int \<times> 'a) list \<Rightarrow> int" where
  "next_id rows = fold max (map fst rows) 0 + 1"

text \<open>\<open>user_id == u AND returned_date IS NULL\<close>\<close>

definition active_borrows_of :: "db \<Rightarrow> int \<Rightarrow> (int \<times> BorrowRecord) list" where
  "active_borrows_of d u =
     filter (\<lambda>(i, r). user_id r = u \<and> returned_date r = None) (borrow_records d)"

text \<open>\<open>user_id == u AND returned_date IS NULL AND due_date < date.today()\<close>\<close>

definition overdue_borrows_of :: "clock \<Rightarrow> db \<Rightarrow> int \<Rightarrow> (int \<times> BorrowRecord) list" where
  "overdue_borrows_of clk d u =
     filter (\<lambda>(i, r). user_id r = u \<and> returned_date r = None \<and> due_date r < today clk)
       (borrow_records d)"

section \<open>Creating a borrow record (app/routes/borrow_record.py)\<close>

definition MAX_ACTIVE_BORROWS :: nat where
  "MAX_ACTIVE_BORROWS = 5"

text \<open>\<open>BorrowRecord(**borrow_data.model_dump())\<close>\<close>

definition BorrowRecord_of :: "BorrowRecordCreateSchema \<Rightarrow> BorrowRecord" where
  "BorrowRecord_of p =
     \<lparr> user_id = p_user_id p, book_id = p_book_id p, borrowed_date = p_borrowed_date p,
       due_date = p_due_date p, returned_date = p_returned_date p,
       fine_amount = p_fine_amount p, r_notes = p_notes p \<rparr>"

definition create_borrow_record ::
  "clock \<Rightarrow> BorrowRecordCreateSchema \<Rightarrow> db \<Rightarrow> (int \<times> BorrowRecord) outcome" where
  "create_borrow_record clk borrow_data d =
     (case users d (p_user_id borrow_data) of
        None \<Rightarrow> raise d (HTTPException 404 UserNotFound)
      | Some user \<Rightarrow>
          if \<not> is_active user then raise d (HTTPException 400 UserNotActive)
          else
            (case books d (p_book_id borrow_data) of
               None \<Rightarrow> raise d (HTTPException 404 BookNotFound)
             | Some book \<Rightarrow>
                 if status book \<noteq> AVAILABLE
                 then raise d (HTTPException 400 (BookNotAvailable (status book)))
                 else
                   let active_borrows_count =
                         length (active_borrows_of d (p_user_id borrow_data))
                   in if active_borrows_count \<ge> MAX_ACTIVE_BORROWS
                      then raise d (HTTPException 400 (BorrowLimitReached MAX_ACTIVE_BORROWS))
                      else
                        let overdue_books = overdue_borrows_of clk d (p_user_id borrow_data)
                        in if overdue_books \<noteq> []
                           then raise d (HTTPException 400 UserHasOverdue)
                           else
                             let db_borrow = BorrowRecord_of borrow_data;
                                 new_id = next_id (borrow_records d)
                             in (d\<lparr> borrow_records := borrow_records d @ [(new_id, db_borrow)],
                                    books := (books d)(p_book_id borrow_data \<mapsto>
                                      book\<lparr> status := BORROWED, b_updated_at := utcnow clk \<rparr>) \<rparr>,
                                 Inr (new_id, db_borrow))))"

section \<open>Derived attributes of a borrow record (app/database.py)\<close>

definition is_overdue :: "clock \<Rightarrow> BorrowRecord \<Rightarrow> bool" where
  "is_overdue clk r = (if returned_date r \<noteq> None then False else today clk > due_date r)"

definition days_overdue :: "clock \<Rightarrow> BorrowRecord \<Rightarrow> int" where
  "days_overdue clk r = (if \<not> is_overdue clk r then 0 else today clk - due_date r)"

section \<open>Returning, extending, patching and deleting (app/routes/borrow_record.py)\<close>

definition FINE_PER_DAY :: rat where
  "FINE_PER_DAY = 1 / 2"

definition MAX_FINE :: rat where
  "MAX_FINE = 25"

definition return_book :: "clock \<Rightarrow> int \<Rightarrow> db \<Rightarrow> BorrowRecord outcome" where
  "return_book clk borrow_id d =
     (case session_get_borrow d borrow_id of
        None \<Rightarrow> raise d (HTTPException 404 BorrowNotFound)
      | Some borrow_record \<Rightarrow>
          if returned_date borrow_record \<noteq> None
          then raise d (HTTPException 400 AlreadyReturned)
          else
            let r1 = borrow_record\<lparr> returned_date := Some (utcnow clk) \<rparr>;
                r2 = (if is_overdue clk r1
                      then r1\<lparr> fine_amount :=
                             Some (min (of_int (days_overdue clk r1) * FINE_PER_DAY) MAX_FINE) \<rparr>
                      else r1)
            in (case books d (book_id r2) of
                  None \<Rightarrow> raise d AttributeError
                | Some book \<Rightarrow>
                    (d\<lparr> borrow_records := AList.update borrow_id r2 (borrow_records d),
                        books := (books d)(book_id r2 \<mapsto>
                          book\<lparr> status := AVAILABLE, b_updated_at := utcnow clk \<rparr>) \<rparr>,
                     Inr r2)))"

text \<open>Python's \<open>str\<close> of an integer, for the f-string of the extension note.\<close>

fun str_nat :: "nat \<Rightarrow> string" where
  "str_nat n = (if n < 10 then [char_of (48 + n)]
                else str_nat (n div 10) @ [char_of (48 + n mod 10)])"

declare str_nat.simps [simp del]

definition str_int :: "int \<Rightarrow> string" where
  "str_int i = (if i < 0 then CHR ''-'' # str_nat (nat (- i)) else str_nat (nat i))"

text \<open>
  \<open>isoformat\<close> stands for \<open>str\<close> of a \<open>date\<close> (the standard library's \<open>YYYY-MM-DD\<close>
  rendering), which the f-string of the note calls; it is a parameter of the model.
  \<open>Query(..., ge=1, le=30)\<close> rejects an \<open>extend_days\<close> out of bounds before the handler runs.
\<close>

definition extend_due_date ::
  "(date \<Rightarrow> string) \<Rightarrow> clock \<Rightarrow> int \<Rightarrow> int \<Rightarrow> db \<Rightarrow> BorrowRecord outcome" where
  "extend_due_date isoformat clk borrow_id extend_days d =
     (if \<not> (1 \<le> extend_days \<and> extend_days \<le> 30) then raise d RequestValidationError
      else
        (case session_get_borrow d borrow_id of
           None \<Rightarrow> raise d (HTTPException 404 BorrowNotFound)
         | Some borrow_record \<Rightarrow>
             if returned_date borrow_record \<noteq> None
             then raise d (HTTPException 400 CannotExtendReturned)
             else
               let r1 = borrow_record\<lparr> due_date := due_date borrow_record + extend_days \<rparr>;
                   r2 = r1\<lparr> r_notes := Some (''Extended by '' @ str_int extend_days
                                               @ '' days on '' @ isoformat (today clk)) \<rparr>
               in (d\<lparr> borrow_records := AList.update borrow_id r2 (borrow_records d) \<rparr>,
                   Inr r2)))"



datatype message = BorrowRecordDeleted | UserDeleted

definition delete_borrow_record :: "clock \<Rightarrow> int \<Rightarrow> db \<Rightarrow> message outcome" where
  "delete_borrow_record clk borrow_id d =
     (case session_get_borrow d borrow_id of
        None \<Rightarrow> raise d (HTTPException 404 BorrowNotFound)
      | Some borrow_record \<Rightarrow>
          if returned_date borrow_record = None
          then
            (case books d (book_id borrow_record) of
               None \<Rightarrow> raise d AttributeError
             | Some book \<Rightarrow>
                 (d\<lparr> books := (books d)(book_id borrow_record \<mapsto>
                          book\<lparr> status := AVAILABLE, b_updated_at := utcnow clk \<rparr>),
                      borrow_records := AList.delete borrow_id (borrow_records d) \<rparr>,
                  Inr BorrowRecordDeleted))
          else
            (d\<lparr> borrow_records := AList.delete borrow_id (borrow_records d) \<rparr>,
             Inr BorrowRecordDeleted))"

section \<open>Payload validation (app/schema.py)\<close>

text \<open>
  A \<open>Field(...)\<close> declaration is the list of its keyword arguments. The validation library
  enforces the keywords it knows (\<open>ge\<close>, \<open>gt\<close>, \<open>le\<close>, \<open>lt\<close> on numbers; \<open>min_length\<close>,
  \<open>max_length\<close> and their older names \<open>min_items\<close>, \<open>max_items\<close> on sizes) and keeps every
  other keyword as schema metadata, which constrains nothing.
\<close>

type_synonym field_info = "(string \<times> int) list"

fun number_constraint :: "string \<times> int \<Rightarrow> rat \<Rightarrow> bool" where
  "number_constraint (kw, b) v =
     (if kw = ''ge'' then of_int b \<le> v
      else if kw = ''gt'' then of_int b < v
      else if kw = ''le'' then v \<le> of_int b
      else if kw = ''lt'' then v < of_int b
      else True)"

fun size_constraint :: "string \<times> int \<Rightarrow> nat \<Rightarrow> bool" where
  "size_constraint (kw, b) n =
     (if kw = ''min_length'' \<or> kw = ''min_items'' then b \<le> int n
      else if kw = ''max_length'' \<or> kw = ''max_items'' then int n \<le> b
      else True)"

definition number_field_ok :: "field_info \<Rightarrow> rat \<Rightarrow> bool" where
  "number_field_ok fi v = list_all (\<lambda>c. number_constraint c v) fi"

definition size_field_ok :: "field_info \<Rightarrow> nat \<Rightarrow> bool" where
  "size_field_ok fi n = list_all (\<lambda>c. size_constraint c n) fi"

text \<open>An \<open>Optional\<close> field is checked only when it holds a value.\<close>

definition optional_ok :: "('a \<Rightarrow> bool) \<Rightarrow> 'a option \<Rightarrow> bool" where
  "optional_ok ok v = (case v of None \<Rightarrow> True | Some x \<Rightarrow> ok x)"

subsection \<open>\<open>BookSchema\<close> and \<open>BookCreateSchema\<close>\<close>

definition BookSchema_title :: field_info where
  "BookSchema_title = [(''min_length'', 2), (''max_length'', 100)]"

definition BookSchema_pages :: field_info where
  "BookSchema_pages = [(''gte'', 0), (''lte'', 10000)]"

definition BookSchema_language :: field_info where
  "BookSchema_language = [(''max_length'', 50)]"

definition BookSchema_description :: field_info where
  "BookSchema_description = [(''max_length'', 1000)]"

definition BookCreateSchema_author_ids :: field_info where
  "BookCreateSchema_author_ids = [(''min_items'', 1)]"

record BookCreateSchema =
  c_title :: string
  c_pages :: int
  c_language :: "string option"
  c_description :: "string option"
  c_genre :: "Genre option"
  c_status :: BookStatus
  c_author_ids :: "int list"

definition title_valid :: "string \<Rightarrow> bool" where
  "title_valid t = size_field_ok BookSchema_title (length t)"

definition pages_valid :: "int \<Rightarrow> bool" where
  "pages_valid n = number_field_ok BookSchema_pages (of_int n)"

definition author_ids_valid :: "int list \<Rightarrow> bool" where
  "author_ids_valid ids = size_field_ok BookCreateSchema_author_ids (length ids)"

definition BookCreateSchema_validate :: "BookCreateSchema \<Rightarrow> error + BookCreateSchema" where
  "BookCreateSchema_validate b =
     (if title_valid (c_title b) \<and> pages_valid (c_pages b)
         \<and> optional_ok (\<lambda>s. size_field_ok BookSchema_language (length s)) (c_language b)
         \<and> optional_ok (\<lambda>s. size_field_ok BookSchema_description (length s)) (c_description b)
         \<and> author_ids_valid (c_author_ids b)
      then Inr b else Inl RequestValidationError)"

subsection \<open>\<open>BorrowRecordSchema\<close>, \<open>BorrowRecordCreateSchema\<close>, \<open>BorrowRecordUpdateSchema\<close>\<close>

definition BorrowRecordSchema_fine_amount :: field_info where
  "BorrowRecordSchema_fine_amount = [(''ge'', 0)]"

definition BorrowRecordSchema_notes :: field_info where
  "BorrowRecordSchema_notes = [(''max_length'', 500)]"

text \<open>The two validators of \<open>BorrowRecordSchema\<close>; \<open>False\<close> where the source raises \<open>ValueError\<close>.\<close>

definition validate_due_date :: "date \<Rightarrow> datetime \<Rightarrow> bool" where
  "validate_due_date v borrowed = (\<not> v \<le> date_of borrowed)"

definition validate_returned_date :: "datetime option \<Rightarrow> datetime \<Rightarrow> bool" where
  "validate_returned_date v borrowed = (case v of None \<Rightarrow> True | Some t \<Rightarrow> \<not> t < borrowed)"

text \<open>The body of a create request: \<open>borrowed_date\<close> may be left out.\<close>

record borrow_body =
  j_borrowed_date :: "datetime option"
  j_due_date :: date
  j_returned_date :: "datetime option"
  j_fine_amount :: "rat option"
  j_notes :: "string option"
  j_user_id :: int
  j_book_id :: int

text \<open>\<open>default_factory=datetime.utcnow\<close>\<close>

definition borrowed_date_or_default :: "clock \<Rightarrow> borrow_body \<Rightarrow> datetime" where
  "borrowed_date_or_default clk j =
     (case j_borrowed_date j of None \<Rightarrow> utcnow clk | Some t \<Rightarrow> t)"

definition BorrowRecordCreateSchema_validate ::
  "clock \<Rightarrow> borrow_body \<Rightarrow> error + BorrowRecordCreateSchema" where
  "BorrowRecordCreateSchema_validate clk j =
     (let borrowed = borrowed_date_or_default clk j
      in if validate_due_date (j_due_date j) borrowed
            \<and> validate_returned_date (j_returned_date j) borrowed
            \<and> optional_ok (number_field_ok BorrowRecordSchema_fine_amount) (j_fine_amount j)
            \<and> optional_ok (\<lambda>s. size_field_ok BorrowRecordSchema_notes (length s)) (j_notes j)
         then Inr \<lparr> p_borrowed_date = borrowed, p_due_date = j_due_date j,
                    p_returned_date = j_returned_date j, p_fine_amount = j_fine_amount j,
                    p_notes = j_notes j, p_user_id = j_user_id j, p_book_id = j_book_id j \<rparr>
         else Inl RequestValidationError)"


text \<open>The requests as the framework serves them: the payload is validated, then the handler runs.\<close>

definition post_borrow_record :: "clock \<Rightarrow> borrow_body \<Rightarrow> db \<Rightarrow> (int \<times> BorrowRecord) outcome" where
  "post_borrow_record clk j d =
     (case BorrowRecordCreateSchema_validate clk j of
        Inl e \<Rightarrow> raise d e
      | Inr borrow_data \<Rightarrow> create_borrow_record clk borrow_data d)"


section \<open>Deleting a user (app/routes/users.py)\<close>

text \<open>The names that the module binds: its imports and its own functions.\<close>

definition users_py_globals :: "string list" where
  "users_py_globals =
     [''datetime'', ''List'', ''APIRouter'', ''Depends'', ''HTTPException'', ''Query'',
      ''Session'', ''and_'', ''or_'', ''select'', ''check_email_exists'', ''get_password_hash'',
      ''User'', ''get_session'', ''UserCreateSchema'', ''UserReadSchema'', ''UserRole'',
      ''UserUpdateSchema'', ''router'', ''create_user'', ''get_user'', ''list_users'',
      ''update_user'', ''patch_user'', ''delete_user'', ''deactivate_user'', ''activate_user'',
      ''search_users'']"

text \<open>Evaluating a global name that the module does not bind raises \<open>NameError\<close>.\<close>

definition delete_user :: "int \<Rightarrow> db \<Rightarrow> message outcome" where
  "delete_user uid d =
     (case users d uid of
        None \<Rightarrow> raise d (HTTPException 404 UserNotFound)
      | Some user \<Rightarrow>
          if ''BorrowRecord'' \<notin> set users_py_globals then raise d (NameError ''BorrowRecord'')
          else
            let active_borrows = active_borrows_of d uid
            in if active_borrows \<noteq> []
               then raise d (HTTPException 400 UserHasActiveBorrows)
               else (d\<lparr> users := (users d)(uid := None) \<rparr>, Inr UserDeleted))"

section \<open>Conditions of the borrowing rules\<close>


definition book_ok :: "db \<Rightarrow> int \<Rightarrow> bool" where
  "book_ok d b = (case books d b of None \<Rightarrow> False | Some book \<Rightarrow> status book = AVAILABLE)"

definition under_limit :: "db \<Rightarrow> int \<Rightarrow> bool" where
  "under_limit d u = (length (active_borrows_of d u) < MAX_ACTIVE_BORROWS)"

definition no_overdue :: "clock \<Rightarrow> db \<Rightarrow> int \<Rightarrow> bool" where
  "no_overdue clk d u = (overdue_borrows_of clk d u = [])"

text \<open>Every borrow record refers to a book that is in storage.\<close>

definition book_refs_ok :: "db \<Rightarrow> bool" where
  "book_refs_ok d = list_all (\<lambda>(i, r). books d (book_id r) \<noteq> None) (borrow_records d)"

text \<open>The ACTIVE records that refer to a book.\<close>

definition active_borrows_on :: "db \<Rightarrow> int \<Rightarrow> (int \<times> BorrowRecord) list" where
  "active_borrows_on d b =
     filter (\<lambda>(i, r). book_id r = b \<and> returned_date r = None) (borrow_records d)"

section \<open>A library to run the operations on\<close>

text \<open>
  The first of March 2024 is day 738946; the clock reads ten in the morning.
  Alice has returned her one loan, Bob is inactive, Carol holds five loans, Dave holds one
  that was due ten days ago. Carol's books have since been removed from the catalogue.
\<close>

definition at_day :: "date \<Rightarrow> datetime" where
  "at_day dy = dy * 86400000000"

definition clock0 :: clock where
  "clock0 = \<lparr> utcnow = at_day 738946 + 36000000000, today = 738946 \<rparr>"

definition isoformat0 :: "date \<Rightarrow> string" where
  "isoformat0 dy = ''2024-03-01''"

definition patron :: "string \<Rightarrow> bool \<Rightarrow> User" where
  "patron n a = \<lparr> name = n, email = n @ ''@example.org'', role = MEMBER, is_active = a,
                  hashed_password = ''$2b$12$'', u_created_at = at_day 738000,
                  u_updated_at = at_day 738000 \<rparr>"

definition volume :: "string \<Rightarrow> BookStatus \<Rightarrow> Book" where
  "volume t s = \<lparr> title = t, pages = 412, language = Some ''English'', description = None,
                  genre = Some SCIENCE_FICTION, status = s, b_created_at = at_day 738000,
                  b_updated_at = at_day 738000 \<rparr>"

definition loan :: "int \<Rightarrow> int \<Rightarrow> date \<Rightarrow> date \<Rightarrow> BorrowRecord" where
  "loan u b since due =
     \<lparr> user_id = u, book_id = b, borrowed_date = at_day since, due_date = due,
       returned_date = None, fine_amount = None, r_notes = None \<rparr>"

definition dave_loan :: BorrowRecord where
  "dave_loan = (loan 4 8 738922 738936)\<lparr> r_notes := Some ''Cover torn'' \<rparr>"

definition alice_loan :: BorrowRecord where
  "alice_loan = (loan 1 7 738900 738914)\<lparr> returned_date := Some (at_day 738910) \<rparr>"

definition library0 :: db where
  "library0 =
     \<lparr> users = [1 \<mapsto> patron ''alice'' True, 2 \<mapsto> patron ''bob'' False,
                3 \<mapsto> patron ''carol'' True, 4 \<mapsto> patron ''dave'' True],
       books = [7 \<mapsto> volume ''Dune'' AVAILABLE, 8 \<mapsto> volume ''Emma'' BORROWED],
       borrow_records =
         [(1, loan 3 21 738940 738954), (2, loan 3 22 738940 738954),
          (3, loan 3 23 738940 738954), (4, loan 3 24 738940 738954),
          (5, loan 3 25 738940 738954), (6, dave_loan), (7, alice_loan)] \<rparr>"

text \<open>A library where every borrow record has its book.\<close>

definition library1 :: db where
  "library1 =
     \<lparr> users = [1 \<mapsto> patron ''alice'' True, 4 \<mapsto> patron ''dave'' True],
       books = [7 \<mapsto> volume ''Dune'' AVAILABLE, 8 \<mapsto> volume ''Emma'' BORROWED],
       borrow_records = [(6, dave_loan), (7, alice_loan)] \<rparr>"

definition request :: "int \<Rightarrow> int \<Rightarrow> BorrowRecordCreateSchema" where
  "request u b =
     \<lparr> p_borrowed_date = utcnow clock0, p_due_date = 738960, p_returned_date = None,
       p_fine_amount = None, p_notes = None, p_user_id = u, p_book_id = b \<rparr>"

text \<open>A create request that already carries a return date.\<close>

definition returned_body :: borrow_body where
  "returned_body =
     \<lparr> j_borrowed_date = None, j_due_date = 738960, j_returned_date = Some (utcnow clock0 + 1),
       j_fine_amount = None, j_notes = None, j_user_id = 1, j_book_id = 7 \<rparr>"


definition long_title_book :: BookCreateSchema where
  "long_title_book =
     \<lparr> c_title = replicate 150 (CHR ''a''), c_pages = 412, c_language = Some ''English'',
       c_description = None, c_genre = None, c_status = AVAILABLE, c_author_ids = [1] \<rparr>"

section \<open>Storage lemmas\<close>

lemma fold_max_ge: "(a::int) \<le> fold max xs a"
  by (induction xs arbitrary: a) (auto intro: order_trans [OF max.cobounded2])

lemma fold_max_mem: "x \<in> set xs \<Longrightarrow> (x::int) \<le> fold max xs a"
proof (induction xs arbitrary: a)
  case Nil
  then show ?case by simp
next
  case (Cons y ys)
  show ?case
  proof (cases "x = y")
    case True
    have "y \<le> max y a" by simp
    also have "\<dots> \<le> fold max ys (max y a)" by (rule fold_max_ge)
    finally show ?thesis using True by simp
  next
    case False
    with Cons show ?thesis by simp
  qed
qed

lemma next_id_fresh: "next_id rows \<notin> fst ` set rows"
proof
  assume "next_id rows \<in> fst ` set rows"
  then have "next_id rows \<in> set (map fst rows)" by simp
  then have "next_id rows \<le> fold max (map fst rows) 0" by (rule fold_max_mem)
  then show False by (simp add: next_id_def)
qed

lemma not_overdue_once_returned: "returned_date r \<noteq> None \<Longrightarrow> \<not> is_overdue clk r"
  by (simp add: is_overdue_def)

lemma book_refs_okD:
  "book_refs_ok d \<Longrightarrow> session_get_borrow d i = Some r \<Longrightarrow> books d (book_id r) \<noteq> None"
  by (auto simp: book_refs_ok_def session_get_borrow_def list_all_iff dest!: map_of_SomeD)

lemma map_of_append_fresh:
  assumes "i \<notin> fst ` set rows"
  shows "map_of (rows @ [(i, r)]) i = Some r"
proof -
  have "map_of rows i = None" using assms by (simp add: map_of_eq_None_iff)
  then show ?thesis by (simp add: map_add_def)
qed

lemma create_borrow_record_Inr:
  assumes "create_borrow_record clk p d = (d', Inr (i, r))"
  shows "r = BorrowRecord_of p \<and> i = next_id (borrow_records d)
         \<and> borrow_records d' = borrow_records d @ [(i, r)]"
  using assms
  by (auto simp: create_borrow_record_def raise_def Let_def split: option.splits if_splits)

lemma create_borrow_record_success:
  assumes "users d (p_user_id p) = Some user" "is_active user"
    and "books d (p_book_id p) = Some book" "status book = AVAILABLE"
    and "under_limit d (p_user_id p)" "no_overdue clk d (p_user_id p)"
  shows "create_borrow_record clk p d =
    (d\<lparr> borrow_records := borrow_records d @ [(next_id (borrow_records d), BorrowRecord_of p)],
        books := (books d)(p_book_id p \<mapsto> book\<lparr> status := BORROWED, b_updated_at := utcnow clk \<rparr>) \<rparr>,
     Inr (next_id (borrow_records d), BorrowRecord_of p))"
  using assms
  by (simp add: create_borrow_record_def under_limit_def no_overdue_def Let_def)

lemma return_book_active:
  assumes "session_get_borrow d i = Some r" "returned_date r = None" "books d (book_id r) = Some b"
  shows "return_book clk i d =
    (d\<lparr> borrow_records := AList.update i (r\<lparr> returned_date := Some (utcnow clk) \<rparr>) (borrow_records d),
        books := (books d)(book_id r \<mapsto> b\<lparr> status := AVAILABLE, b_updated_at := utcnow clk \<rparr>) \<rparr>,
     Inr (r\<lparr> returned_date := Some (utcnow clk) \<rparr>))"
  using assms by (simp add: return_book_def Let_def is_overdue_def)

lemma title_valid_iff: "title_valid t \<longleftrightarrow> 2 \<le> length t \<and> length t \<le> 100"
  by (auto simp: title_valid_def size_field_ok_def BookSchema_title_def)

lemma author_ids_valid_iff: "author_ids_valid ids \<longleftrightarrow> ids \<noteq> []"
  by (cases ids) (auto simp: author_ids_valid_def size_field_ok_def BookCreateSchema_author_ids_def)

section \<open>Facts about the example library\<close>

lemmas example_defs = library0_def library1_def clock0_def at_day_def patron_def volume_def
  loan_def dave_loan_def alice_loan_def

lemma request_fields:
  "p_user_id (request u b) = u" "p_book_id (request u b) = b" "p_returned_date (request u b) = None"
  by (simp_all add: request_def)


lemma library0_books:
  "books library0 99 = None" "books library0 8 = Some (volume ''Emma'' BORROWED)"
  "books library0 7 = Some (volume ''Dune'' AVAILABLE)" "book_ok library0 7"
  "status (volume t s) = s"
  by (simp_all add: example_defs book_ok_def)

lemma library0_borrows:
  "\<not> under_limit library0 3" "under_limit library0 4" "\<not> no_overdue clock0 library0 4"
  "under_limit library0 1" "no_overdue clock0 library0 1"
  by (simp_all add: example_defs under_limit_def no_overdue_def active_borrows_of_def
      overdue_borrows_of_def MAX_ACTIVE_BORROWS_def)

lemma library0_records:
  "session_get_borrow library0 6 = Some dave_loan"
  "session_get_borrow library0 7 = Some alice_loan"
  "session_get_borrow library0 1 = Some (loan 3 21 738940 738954)"
  by (simp_all add: library0_def session_get_borrow_def)

lemma dave_loan_fields:
  "returned_date dave_loan = None" "book_id dave_loan = 8" "user_id dave_loan = 4"
  "due_date dave_loan = 738936" "fine_amount dave_loan = None"
  "r_notes dave_loan = Some ''Cover torn''" "borrowed_date dave_loan = at_day 738922"
  by (simp_all add: dave_loan_def loan_def)

lemma alice_loan_fields:
  "returned_date alice_loan = Some (at_day 738910)" "book_id alice_loan = 7"
  "fine_amount alice_loan = None" "due_date alice_loan = 738914"
  by (simp_all add: alice_loan_def loan_def)

lemma clock0_fields: "today clock0 = 738946" "utcnow clock0 = at_day 738946 + 36000000000"
  by (simp_all add: clock0_def)

lemma library0_alice: "users library0 1 = Some (patron ''alice'' True)" "is_active (patron n True)"
  by (simp_all add: library0_def patron_def)

lemma library0_next_id: "next_id (borrow_records library0) = 8"
  by (simp add: library0_def next_id_def)

lemma returned_body_fields:
  "j_due_date returned_body = 738960" "j_returned_date returned_body = Some (utcnow clock0 + 1)"
  "j_fine_amount returned_body = None" "j_notes returned_body = None"
  "borrowed_date_or_default clock0 returned_body = utcnow clock0"
  by (simp_all add: returned_body_def borrowed_date_or_default_def)

lemma str_int_3: "str_int 3 = ''3''"
  by code_simp

section \<open>Creating a borrow record: the order of the checks\<close>



section \<open>Returning a book: the fine\<close>

text \<open>
  C1. The claim: returning an ACTIVE record that is overdue stores the fine
  \<open>min (days_overdue * 0.50) 25.00\<close> in \<open>fine_amount\<close>. The handler sets \<open>returned_date\<close>
  first and asks \<open>is_overdue\<close> afterwards, which is false for a record that has a return
  date. Dave's loan was due ten days before the day of the return: the formula gives 5,
  and the record that the handler returns and stores has no fine.
\<close>

theorem return_book_overdue_stores_no_fine:
  "session_get_borrow library0 6 = Some dave_loan
   \<and> is_overdue clock0 dave_loan
   \<and> days_overdue clock0 dave_loan = 10
   \<and> min (of_int (days_overdue clock0 dave_loan) * FINE_PER_DAY) MAX_FINE = 5
   \<and> snd (return_book clock0 6 library0) = Inr (dave_loan\<lparr> returned_date := Some (utcnow clock0) \<rparr>)
   \<and> fine_amount (dave_loan\<lparr> returned_date := Some (utcnow clock0) \<rparr>) = None"
proof -
  have over: "is_overdue clock0 dave_loan"
    by (simp add: is_overdue_def dave_loan_fields clock0_fields)
  then have days: "days_overdue clock0 dave_loan = 10"
    by (simp add: days_overdue_def dave_loan_fields clock0_fields)
  have "books library0 (book_id dave_loan) = Some (volume ''Emma'' BORROWED)"
    by (simp add: dave_loan_fields library0_books)
  then have "snd (return_book clock0 6 library0)
      = Inr (dave_loan\<lparr> returned_date := Some (utcnow clock0) \<rparr>)"
    by (simp add: return_book_active [OF library0_records(1) dave_loan_fields(1)])
  then show ?thesis
    using over days by (simp add: library0_records dave_loan_fields FINE_PER_DAY_def MAX_FINE_def)
qed

section \<open>Deleting a borrow record\<close>

text \<open>
  C3. Deleting an existing borrow record: when the record is ACTIVE and its book is in
  storage, the book's status is set to available and the record is removed; when the
  record is RETURNED, the record is removed and the books are left as they were. The
  other borrow records stay in both cases.
\<close>

theorem delete_borrow_record_releases_book:
  "session_get_borrow d i = Some r \<Longrightarrow>
    (returned_date r = None \<longrightarrow>
       (\<forall>b. books d (book_id r) = Some b \<longrightarrow>
          (\<exists>d'. delete_borrow_record clk i d = (d', Inr BorrowRecordDeleted)
             \<and> books d' = (books d)(book_id r \<mapsto> b\<lparr> status := AVAILABLE, b_updated_at := utcnow clk \<rparr>)
             \<and> map_option status (books d' (book_id r)) = Some AVAILABLE
             \<and> session_get_borrow d' i = None
             \<and> (\<forall>j. j \<noteq> i \<longrightarrow> session_get_borrow d' j = session_get_borrow d j))))
    \<and> (returned_date r \<noteq> None \<longrightarrow>
       (\<exists>d'. delete_borrow_record clk i d = (d', Inr BorrowRecordDeleted)
          \<and> books d' = books d
          \<and> session_get_borrow d' i = None
          \<and> (\<forall>j. j \<noteq> i \<longrightarrow> session_get_borrow d' j = session_get_borrow d j)))"
  by (auto simp: delete_borrow_record_def session_get_borrow_def delete_conv')

theorem delete_borrow_record_releases_book_witness:
  "(\<exists>d'. delete_borrow_record clock0 6 library0 = (d', Inr BorrowRecordDeleted)
      \<and> map_option status (books d' 8) = Some AVAILABLE
      \<and> session_get_borrow d' 6 = None)
   \<and> (\<exists>d'. delete_borrow_record clock0 7 library0 = (d', Inr BorrowRecordDeleted)
      \<and> books d' = books library0
      \<and> session_get_borrow d' 7 = None)"
proof
  show "\<exists>d'. delete_borrow_record clock0 6 library0 = (d', Inr BorrowRecordDeleted)
      \<and> map_option status (books d' 8) = Some AVAILABLE
      \<and> session_get_borrow d' 6 = None"
    using delete_borrow_record_releases_book [OF library0_records(1), of clock0]
    by (simp add: dave_loan_fields library0_books) blast
  show "\<exists>d'. delete_borrow_record clock0 7 library0 = (d', Inr BorrowRecordDeleted)
      \<and> books d' = books library0
      \<and> session_get_borrow d' 7 = None"
    using delete_borrow_record_releases_book [OF library0_records(2), of clock0]
    by (simp add: alice_loan_fields) blast
qed

section \<open>Extending the due date\<close>

text \<open>
  C4. Extending an existing record by \<open>n\<close> days, \<open>1 \<le> n \<le> 30\<close>: a RETURNED record gives the
  400 "Cannot extend returned book" and the storage is unchanged; an ACTIVE record gets
  its due date moved forward by exactly \<open>n\<close> days, with \<open>fine_amount\<close> and every field other
  than the notes as before.
\<close>

theorem extend_due_date_shifts:
  "session_get_borrow d i = Some r \<Longrightarrow> 1 \<le> n \<Longrightarrow> n \<le> 30 \<Longrightarrow>
    (returned_date r \<noteq> None \<longrightarrow>
       extend_due_date isoformat clk i n d = (d, Inl (HTTPException 400 CannotExtendReturned)))
    \<and> (returned_date r = None \<longrightarrow>
       (\<exists>d' r'. extend_due_date isoformat clk i n d = (d', Inr r')
          \<and> session_get_borrow d' i = Some r'
          \<and> due_date r' = due_date r + n
          \<and> fine_amount r' = fine_amount r
          \<and> returned_date r' = None
          \<and> borrowed_date r' = borrowed_date r \<and> user_id r' = user_id r \<and> book_id r' = book_id r
          \<and> books d' = books d \<and> users d' = users d
          \<and> (\<forall>j. j \<noteq> i \<longrightarrow> session_get_borrow d' j = session_get_borrow d j)))"
  by (auto simp: extend_due_date_def raise_def Let_def session_get_borrow_def update_conv')

theorem extend_due_date_shifts_witness:
  "extend_due_date isoformat0 clock0 7 7 library0
     = (library0, Inl (HTTPException 400 CannotExtendReturned))
   \<and> (\<exists>d' r'. extend_due_date isoformat0 clock0 6 7 library0 = (d', Inr r')
        \<and> session_get_borrow d' 6 = Some r'
        \<and> due_date r' = 738943
        \<and> fine_amount r' = None)"
proof
  show "extend_due_date isoformat0 clock0 7 7 library0
     = (library0, Inl (HTTPException 400 CannotExtendReturned))"
    using extend_due_date_shifts [OF library0_records(2), of 7 isoformat0 clock0]
    by (simp add: alice_loan_fields)
  show "\<exists>d' r'. extend_due_date isoformat0 clock0 6 7 library0 = (d', Inr r')
        \<and> session_get_borrow d' 6 = Some r'
        \<and> due_date r' = 738943
        \<and> fine_amount r' = None"
    using extend_due_date_shifts [OF library0_records(1), of 7 isoformat0 clock0]
    by (simp add: dave_loan_fields) blast
qed

text \<open>
  C5, as stated: the extension appends its note to the notes that the record has. Dave's
  loan carries the note "Cover torn"; after an extension by three days its notes are the
  extension note alone.
\<close>

theorem extend_due_date_drops_old_notes:
  "r_notes dave_loan = Some ''Cover torn''
   \<and> snd (extend_due_date isoformat0 clock0 6 3 library0)
       = Inr (dave_loan\<lparr> due_date := 738939,
                          r_notes := Some ''Extended by 3 days on 2024-03-01'' \<rparr>)
   \<and> \<not> sublist ''Cover torn'' ''Extended by 3 days on 2024-03-01''"
proof -
  have "\<not> sublist ''Cover torn'' ''Extended by 3 days on 2024-03-01''"
    by code_simp
  then show ?thesis
    by (simp add: extend_due_date_def Let_def library0_records dave_loan_fields str_int_3
        isoformat0_def clock0_fields)
qed

text \<open>
  C5, amended: every successful extension of an ACTIVE record sets the record's notes to
  the note that records the extension and its date, whatever the notes were before.
\<close>

theorem extend_due_date_overwrites_notes:
  "session_get_borrow d i = Some r \<Longrightarrow> returned_date r = None \<Longrightarrow> 1 \<le> n \<Longrightarrow> n \<le> 30 \<Longrightarrow>
    (\<exists>d' r'. extend_due_date isoformat clk i n d = (d', Inr r')
       \<and> session_get_borrow d' i = Some r'
       \<and> r_notes r' = Some (''Extended by '' @ str_int n @ '' days on '' @ isoformat (today clk)))"
  by (auto simp: extend_due_date_def raise_def Let_def session_get_borrow_def update_conv')

theorem extend_due_date_overwrites_notes_witness:
  "\<exists>d' r'. extend_due_date isoformat0 clock0 6 3 library0 = (d', Inr r')
     \<and> session_get_borrow d' 6 = Some r'
     \<and> r_notes r' = Some ''Extended by 3 days on 2024-03-01''"
  using extend_due_date_overwrites_notes [OF library0_records(1) dave_loan_fields(1), of 3 isoformat0 clock0]
  by (simp add: str_int_3 isoformat0_def)

section \<open>Validation of borrow payloads\<close>




section \<open>Deleting a user\<close>

text \<open>
  C7. The claim: deleting a user with an unreturned record is rejected with an error of
  the taxonomy, and deleting a user without one succeeds. The module of the handler never
  imports \<open>BorrowRecord\<close>, so for every user in storage the query for the active records
  raises \<open>NameError\<close>: the request fails with status 500 and the user stays, with or
  without active records.
\<close>

theorem delete_user_raises_NameError:
  "users d uid = Some u \<Longrightarrow> delete_user uid d = (d, Inl (NameError ''BorrowRecord''))"
  by (simp add: delete_user_def raise_def users_py_globals_def)

theorem delete_user_raises_NameError_witness:
  "active_borrows_of library0 1 = []
   \<and> delete_user 1 library0 = (library0, Inl (NameError ''BorrowRecord''))
   \<and> status_code (NameError ''BorrowRecord'') = 500
   \<and> active_borrows_of library0 4 = [(6, dave_loan)]
   \<and> delete_user 4 library0 = (library0, Inl (NameError ''BorrowRecord''))"
proof -
  have u: "users library0 1 = Some (patron ''alice'' True)" "users library0 4 = Some (patron ''dave'' True)"
    by (simp_all add: library0_def)
  have "active_borrows_of library0 1 = []" "active_borrows_of library0 4 = [(6, dave_loan)]"
    by (simp_all add: active_borrows_of_def library0_def loan_def dave_loan_def alice_loan_def)
  then show ?thesis
    using delete_user_raises_NameError [OF u(1)] delete_user_raises_NameError [OF u(2)]
    by (simp add: status_code_def)
qed

section \<open>Validation of a book payload\<close>

text \<open>
  The keywords \<open>gte\<close> and \<open>lte\<close> of the \<open>pages\<close> field are not constraints of the validation
  library: every page count passes.
\<close>

lemma pages_unconstrained: "pages_valid n"
  by (simp add: pages_valid_def number_field_ok_def BookSchema_pages_def)

text \<open>
  C8, as stated: a title of 2 to 200 characters passes. A payload whose title has 150
  characters is rejected.
\<close>

theorem long_title_rejected:
  "length (c_title long_title_book) = 150
   \<and> \<not> title_valid (c_title long_title_book)
   \<and> BookCreateSchema_validate long_title_book = Inl RequestValidationError"
  by (simp add: long_title_book_def BookCreateSchema_validate_def title_valid_iff)

text \<open>
  C8, amended: a title passes exactly when it has 2 to 100 characters, a list of author
  ids passes exactly when it is not empty, and a book payload with a title outside 2 to
  100 characters or without an author id is rejected.
\<close>

theorem book_create_title_and_authors:
  "(title_valid t \<longleftrightarrow> 2 \<le> length t \<and> length t \<le> 100)
   \<and> (author_ids_valid ids \<longleftrightarrow> ids \<noteq> [])
   \<and> (BookCreateSchema_validate b = Inr b \<longrightarrow>
        2 \<le> length (c_title b) \<and> length (c_title b) \<le> 100 \<and> c_author_ids b \<noteq> [])
   \<and> (\<not> (2 \<le> length (c_title b) \<and> length (c_title b) \<le> 100) \<or> c_author_ids b = [] \<longrightarrow>
        BookCreateSchema_validate b = Inl RequestValidationError)"
  by (auto simp: title_valid_iff author_ids_valid_iff BookCreateSchema_validate_def)

theorem book_create_title_and_authors_witness:
  "title_valid (replicate 100 (CHR ''a'')) \<and> \<not> title_valid (replicate 101 (CHR ''a''))
   \<and> author_ids_valid [1]
   \<and> BookCreateSchema_validate (long_title_book\<lparr> c_title := ''D'' \<rparr>) = Inl RequestValidationError
   \<and> BookCreateSchema_validate (long_title_book\<lparr> c_title := ''Dune'', c_author_ids := [] \<rparr>)
      = Inl RequestValidationError"
  using book_create_title_and_authors [of "replicate 100 (CHR ''a'')" "[1]" "long_title_book\<lparr> c_title := ''D'' \<rparr>"]
    book_create_title_and_authors [of "replicate 101 (CHR ''a'')" "[1]"
      "long_title_book\<lparr> c_title := ''Dune'', c_author_ids := [] \<rparr>"]
  by (simp add: long_title_book_def)

section \<open>A create request that is already returned\<close>

text \<open>
  C9. The record that a successful create request inserts has every field of the payload,
  the return date, the fine and the notes included, and the book becomes borrowed. There
  is a payload that passes validation with a return date: the record it creates is
  RETURNED, and afterwards the book is borrowed while no ACTIVE record refers to it.
\<close>

theorem create_copies_payload_return_date:
  "(create_borrow_record clk p d = (d', Inr (i, r)) \<longrightarrow>
      borrowed_date r = p_borrowed_date p \<and> due_date r = p_due_date p
      \<and> returned_date r = p_returned_date p \<and> fine_amount r = p_fine_amount p
      \<and> r_notes r = p_notes p \<and> user_id r = p_user_id p \<and> book_id r = p_book_id p
      \<and> session_get_borrow d' i = Some r
      \<and> map_option status (books d' (p_book_id p)) = Some BORROWED)
   \<and> (\<exists>p d' i r. BorrowRecordCreateSchema_validate clock0 returned_body = Inr p
         \<and> p_returned_date p = Some (utcnow clock0 + 1)
         \<and> post_borrow_record clock0 returned_body library0 = (d', Inr (i, r))
         \<and> session_get_borrow d' i = Some r
         \<and> returned_date r = Some (utcnow clock0 + 1)
         \<and> book_id r = 7
         \<and> map_option status (books d' 7) = Some BORROWED
         \<and> active_borrows_on d' 7 = [])"
proof
  show "create_borrow_record clk p d = (d', Inr (i, r)) \<longrightarrow>
      borrowed_date r = p_borrowed_date p \<and> due_date r = p_due_date p
      \<and> returned_date r = p_returned_date p \<and> fine_amount r = p_fine_amount p
      \<and> r_notes r = p_notes p \<and> user_id r = p_user_id p \<and> book_id r = p_book_id p
      \<and> session_get_borrow d' i = Some r
      \<and> map_option status (books d' (p_book_id p)) = Some BORROWED"
  proof
    assume c: "create_borrow_record clk p d = (d', Inr (i, r))"
    from create_borrow_record_Inr [OF c]
    have r: "r = BorrowRecord_of p" and i: "i = next_id (borrow_records d)"
      and rows: "borrow_records d' = borrow_records d @ [(i, r)]" by simp_all
    have "session_get_borrow d' i = Some r"
      unfolding session_get_borrow_def rows i by (rule map_of_append_fresh [OF next_id_fresh])
    moreover have "map_option status (books d' (p_book_id p)) = Some BORROWED"
      using c by (auto simp: create_borrow_record_def raise_def Let_def split: option.splits if_splits)
    ultimately show "borrowed_date r = p_borrowed_date p \<and> due_date r = p_due_date p
      \<and> returned_date r = p_returned_date p \<and> fine_amount r = p_fine_amount p
      \<and> r_notes r = p_notes p \<and> user_id r = p_user_id p \<and> book_id r = p_book_id p
      \<and> session_get_borrow d' i = Some r
      \<and> map_option status (books d' (p_book_id p)) = Some BORROWED"
      by (simp add: r BorrowRecord_of_def)
  qed
next
  define p where "p = \<lparr> p_borrowed_date = utcnow clock0, p_due_date = 738960,
       p_returned_date = Some (utcnow clock0 + 1), p_fine_amount = None, p_notes = None,
       p_user_id = 1, p_book_id = 7 \<rparr>"
  define d' where "d' = library0\<lparr> borrow_records := borrow_records library0 @ [(8, BorrowRecord_of p)],
        books := (books library0)(7 \<mapsto>
          (volume ''Dune'' AVAILABLE)\<lparr> status := BORROWED, b_updated_at := utcnow clock0 \<rparr>) \<rparr>"
  have v: "BorrowRecordCreateSchema_validate clock0 returned_body = Inr p"
    by (simp add: BorrowRecordCreateSchema_validate_def Let_def returned_body_fields
        validate_due_date_def validate_returned_date_def optional_ok_def clock0_fields
        date_of_def at_day_def p_def)
       (simp add: returned_body_def)
  have pf: "p_user_id p = 1" "p_book_id p = 7" by (simp_all add: p_def)
  have "create_borrow_record clock0 p library0 = (d', Inr (8, BorrowRecord_of p))"
    using create_borrow_record_success [of library0 p "patron ''alice'' True"
        "volume ''Dune'' AVAILABLE" clock0]
    by (simp add: pf library0_alice library0_books library0_borrows library0_next_id d'_def)
  then have post: "post_borrow_record clock0 returned_body library0 = (d', Inr (8, BorrowRecord_of p))"
    by (simp add: post_borrow_record_def v)
  have "session_get_borrow d' 8 = Some (BorrowRecord_of p)"
    by (simp add: d'_def session_get_borrow_def library0_def)
  moreover have "active_borrows_on d' 7 = []"
    by (simp add: d'_def active_borrows_on_def library0_def loan_def dave_loan_def
        alice_loan_def BorrowRecord_of_def p_def)
  moreover have "map_option status (books d' 7) = Some BORROWED"
    by (simp add: d'_def)
  ultimately show "\<exists>p d' i r. BorrowRecordCreateSchema_validate clock0 returned_body = Inr p
         \<and> p_returned_date p = Some (utcnow clock0 + 1)
         \<and> post_borrow_record clock0 returned_body library0 = (d', Inr (i, r))
         \<and> session_get_borrow d' i = Some r
         \<and> returned_date r = Some (utcnow clock0 + 1)
         \<and> book_id r = 7
         \<and> map_option status (books d' 7) = Some BORROWED
         \<and> active_borrows_on d' 7 = []"
    using v post by (intro exI [of _ p] exI [of _ d'] exI [of _ 8] exI [of _ "BorrowRecord_of p"])
      (simp add: BorrowRecord_of_def p_def)
qed

theorem create_copies_payload_return_date_witness:
  "\<exists>d'. create_borrow_record clock0 (request 1 7) library0 = (d', Inr (8, BorrowRecord_of (request 1 7)))
     \<and> returned_date (BorrowRecord_of (request 1 7)) = None
     \<and> due_date (BorrowRecord_of (request 1 7)) = 738960
     \<and> session_get_borrow d' 8 = Some (BorrowRecord_of (request 1 7))
     \<and> map_option status (books d' 7) = Some BORROWED"
proof -
  have "\<exists>d'. create_borrow_record clock0 (request 1 7) library0
      = (d', Inr (8, BorrowRecord_of (request 1 7)))"
    using create_borrow_record_success [of library0 "request 1 7" "patron ''alice'' True"
        "volume ''Dune'' AVAILABLE" clock0]
    by (simp add: request_fields library0_alice library0_books library0_borrows library0_next_id)
  then obtain d' where c: "create_borrow_record clock0 (request 1 7) library0
      = (d', Inr (8, BorrowRecord_of (request 1 7)))" ..
  show ?thesis
    using c create_copies_payload_return_date [of clock0 "request 1 7" library0 d' 8
        "BorrowRecord_of (request 1 7)"]
    by (intro exI [of _ d']) (simp add: request_def)
qed

section \<open>The book of a record that is returned or deleted\<close>

text \<open>
  C10. When every borrow record refers to a book in storage, returning answers only with
  the record, 404 or 400, and deleting only with the confirmation or 404. For an ACTIVE
  record, returning or deleting it raises \<open>AttributeError\<close> exactly when its book is not in
  storage.
\<close>

theorem return_and_delete_need_book:
  "(book_refs_ok d \<longrightarrow>
      (\<forall>i. case snd (return_book clk i d) of
              Inl e \<Rightarrow> e = HTTPException 404 BorrowNotFound \<or> e = HTTPException 400 AlreadyReturned
            | Inr r' \<Rightarrow> True)
      \<and> (\<forall>i. case snd (delete_borrow_record clk i d) of
              Inl e \<Rightarrow> e = HTTPException 404 BorrowNotFound
            | Inr m \<Rightarrow> True))
   \<and> (\<forall>i r. session_get_borrow d i = Some r \<and> returned_date r = None \<longrightarrow>
        (return_book clk i d = (d, Inl AttributeError) \<longleftrightarrow> books d (book_id r) = None)
        \<and> (delete_borrow_record clk i d = (d, Inl AttributeError) \<longleftrightarrow> books d (book_id r) = None))"
proof (intro conjI impI allI)
  fix i assume ok: "book_refs_ok d"
  show "case snd (return_book clk i d) of
          Inl e \<Rightarrow> e = HTTPException 404 BorrowNotFound \<or> e = HTTPException 400 AlreadyReturned
        | Inr r' \<Rightarrow> True"
    using book_refs_okD [OF ok, of i]
    by (auto simp: return_book_def raise_def Let_def is_overdue_def split: option.splits)
next
  fix i assume ok: "book_refs_ok d"
  show "case snd (delete_borrow_record clk i d) of
          Inl e \<Rightarrow> e = HTTPException 404 BorrowNotFound | Inr m \<Rightarrow> True"
    using book_refs_okD [OF ok, of i]
    by (auto simp: delete_borrow_record_def raise_def split: option.splits)
next
  fix i r assume "session_get_borrow d i = Some r \<and> returned_date r = None"
  then show "return_book clk i d = (d, Inl AttributeError) \<longleftrightarrow> books d (book_id r) = None"
    by (auto simp: return_book_def raise_def Let_def is_overdue_def split: option.splits)
next
  fix i r assume "session_get_borrow d i = Some r \<and> returned_date r = None"
  then show "delete_borrow_record clk i d = (d, Inl AttributeError) \<longleftrightarrow> books d (book_id r) = None"
    by (auto simp: delete_borrow_record_def raise_def split: option.splits)
qed

theorem return_and_delete_need_book_witness:
  "book_refs_ok library1
   \<and> snd (return_book clock0 6 library1) \<noteq> Inl AttributeError
   \<and> snd (delete_borrow_record clock0 6 library1) \<noteq> Inl AttributeError
   \<and> \<not> book_refs_ok library0
   \<and> return_book clock0 1 library0 = (library0, Inl AttributeError)
   \<and> delete_borrow_record clock0 1 library0 = (library0, Inl AttributeError)"
proof -
  have ok: "book_refs_ok library1" and nok: "\<not> book_refs_ok library0"
    by (simp_all add: book_refs_ok_def library1_def library0_def dave_loan_def alice_loan_def loan_def)
  have r: "returned_date (loan 3 21 738940 738954) = None"
    "books library0 (book_id (loan 3 21 738940 738954)) = None"
    by (simp_all add: loan_def library0_def)
  have "snd (return_book clock0 6 library1) \<noteq> Inl AttributeError"
    using return_and_delete_need_book [of library1 clock0] ok
    by (auto split: sum.splits)
  moreover have "snd (delete_borrow_record clock0 6 library1) \<noteq> Inl AttributeError"
    using return_and_delete_need_book [of library1 clock0] ok
    by (auto split: sum.splits)
  moreover have "return_book clock0 1 library0 = (library0, Inl AttributeError)"
    "delete_borrow_record clock0 1 library0 = (library0, Inl AttributeError)"
    using return_and_delete_need_book [of library0 clock0] library0_records(3) r
    by blast+
  ultimately show ?thesis using ok nok by simp
qed

end
